theory Spec2Isabelle
  imports Complex_Main "HOL-Library.Sublist"
begin

section \<open>Data model\<close>

text \<open>
  \<^verbatim>\<open>models.py\<close> declares the request body (a pydantic model) and \<^verbatim>\<open>db_models.py\<close> the
  mapped table row (a SQLAlchemy model). Both have the fields id, name, description,
  price and quantity; the field \<^verbatim>\<open>id\<close> is written \<open>id'\<close> here, since \<open>id\<close> is the
  identity function of HOL. The two records share their field names, as the two Python
  classes do, so every field is written with its record's name in front.

  Python's \<^verbatim>\<open>int\<close> is unbounded: \<open>int\<close>. A price is only ever stored, copied and
  returned, never computed with, so it is a \<open>real\<close> holding the number the literal
  denotes. Column widths (\<^verbatim>\<open>String(255)\<close>, the range of \<^verbatim>\<open>Integer\<close>, the precision of
  \<^verbatim>\<open>Float\<close>) are enforced by the database engine and not by this program: the table
  below stores every value as it is given.
\<close>

record Product =
  id' :: int
  name :: string
  description :: string
  price :: real
  quantity :: int

record db_models_Product =
  id' :: int
  name :: string
  description :: string
  price :: real
  quantity :: int

text \<open>
  \<^verbatim>\<open>db_models.Product(**product.model_dump())\<close>: the body is dumped to a dictionary of
  its five fields, and the row is built from these keywords.
\<close>

definition model_dump :: "Product \<Rightarrow> db_models_Product" where
  "model_dump product =
     \<lparr>db_models_Product.id' = Product.id' product,
      db_models_Product.name = Product.name product,
      db_models_Product.description = Product.description product,
      db_models_Product.price = Product.price product,
      db_models_Product.quantity = Product.quantity product\<rparr>"

section \<open>The session of \<^verbatim>\<open>config.py\<close>\<close>

text \<open>
  \<^verbatim>\<open>session = sessionmaker(autocommit=False, autoflush=False, bind=engine)\<close>.
  A session is a unit of work over one transaction:
  \<^item> \<open>database\<close> is the committed content of table \<^verbatim>\<open>product\<close>, in storage order;
  \<^item> \<open>working\<close> is the table as the open transaction sees it;
  \<^item> \<open>pending\<close> holds the changes registered with the session and not yet flushed
    (nothing is flushed before \<^verbatim>\<open>commit\<close>, as \<^verbatim>\<open>autoflush\<close> is off);
  \<^item> \<open>faults\<close> is the environment: one entry per statement sent to the server, \<open>True\<close>
    when that statement fails (connection lost, server error, ...); past the end of the
    list no statement fails;
  \<^item> \<open>begun\<close> holds while a transaction is open on the server: from the first statement
    of the session to a COMMIT or ROLLBACK that succeeds;
  \<^item> \<open>closed\<close> records that \<^verbatim>\<open>close()\<close> has released the session.
\<close>

datatype error = OperationalError | IntegrityError

datatype change =
    Insert db_models_Product
  | Update int db_models_Product
  | Delete db_models_Product

record Session =
  database :: "db_models_Product list"
  working :: "db_models_Product list"
  pending :: "change list"
  faults :: "bool list"
  begun :: bool
  closed :: bool

type_synonym 'a result = "(error + 'a) \<times> Session"

definition session :: "bool list \<Rightarrow> db_models_Product list \<Rightarrow> Session" where
  "session fs tbl =
     \<lparr>database = tbl, working = tbl, pending = [], faults = fs, begun = False,
      closed = False\<rparr>"

text \<open>A raised exception skips the rest of the block; the session keeps its state.\<close>

definition and_then :: "'a result \<Rightarrow> ('a \<Rightarrow> Session \<Rightarrow> 'b result) \<Rightarrow> 'b result" where
  "and_then r f = (case r of (Inl e, db) \<Rightarrow> (Inl e, db) | (Inr x, db) \<Rightarrow> f x db)"

text \<open>\<^verbatim>\<open>try: body  except Exception as e: handler\<close>\<close>

definition try_except ::
  "(Session \<Rightarrow> 'a result) \<Rightarrow> (error \<Rightarrow> Session \<Rightarrow> 'a result) \<Rightarrow> Session \<Rightarrow> 'a result" where
  "try_except body handler db =
     (case body db of (Inl e, db') \<Rightarrow> handler e db' | (Inr x, db') \<Rightarrow> (Inr x, db'))"

text \<open>
  \<^verbatim>\<open>try: body  finally: final\<close>: the final block runs on every exit of the body (return
  or exception); an exception of the final block replaces the outcome of the body.
\<close>

definition try_finally ::
  "(Session \<Rightarrow> 'a result) \<Rightarrow> (Session \<Rightarrow> unit result) \<Rightarrow> Session \<Rightarrow> 'a result" where
  "try_finally body final db =
     (case body db of (r, db') \<Rightarrow>
        (case final db' of (Inl e, db'') \<Rightarrow> (Inl e, db'') | (Inr _, db'') \<Rightarrow> (r, db'')))"

text \<open>
  One statement sent to the server: it consumes one entry of the environment, and it
  runs in the transaction of the session, which it opens if none is open.
\<close>

definition execute :: "Session \<Rightarrow> unit result" where
  "execute db =
     (case faults db of
        [] \<Rightarrow> (Inr (), db\<lparr>begun := True\<rparr>)
      | f # fs \<Rightarrow>
          (if f then Inl OperationalError else Inr (), db\<lparr>faults := fs, begun := True\<rparr>))"

text \<open>\<^verbatim>\<open>db.query(db_models.Product).count()\<close>\<close>

definition query_count :: "Session \<Rightarrow> int result" where
  "query_count db = and_then (execute db) (\<lambda>_ db. (Inr (int (length (working db))), db))"

text \<open>\<^verbatim>\<open>db.query(db_models.Product).all()\<close>\<close>

definition query_all :: "Session \<Rightarrow> db_models_Product list result" where
  "query_all db = and_then (execute db) (\<lambda>_ db. (Inr (working db), db))"

text \<open>\<^verbatim>\<open>db.query(db_models.Product).filter(db_models.Product.id == id).first()\<close>\<close>

definition query_filter_id_first :: "int \<Rightarrow> Session \<Rightarrow> db_models_Product option result" where
  "query_filter_id_first k db =
     and_then (execute db)
       (\<lambda>_ db. (Inr (find (\<lambda>row. db_models_Product.id' row = k) (working db)), db))"

text \<open>
  \<^verbatim>\<open>db.add(obj)\<close> and \<^verbatim>\<open>db.delete(obj)\<close> register a change; assigning attributes of a
  loaded object makes it dirty: \<open>Update k obj\<close> is the object loaded under primary key
  \<open>k\<close> in its new state. None of the three talks to the server.
\<close>

definition add :: "db_models_Product \<Rightarrow> Session \<Rightarrow> Session" where
  "add obj db = db\<lparr>pending := pending db @ [Insert obj]\<rparr>"

definition dirty :: "int \<Rightarrow> db_models_Product \<Rightarrow> Session \<Rightarrow> Session" where
  "dirty k obj db = db\<lparr>pending := pending db @ [Update k obj]\<rparr>"

definition delete :: "db_models_Product \<Rightarrow> Session \<Rightarrow> Session" where
  "delete obj db = db\<lparr>pending := pending db @ [Delete obj]\<rparr>"

text \<open>
  The effect of one flushed change on the table. \<^verbatim>\<open>id\<close> is the primary key
  (\<^verbatim>\<open>Column(Integer, primary_key=True, index=True)\<close>): an INSERT of a key that is
  present is refused. UPDATE and DELETE address the row by its primary key.
\<close>

fun apply_change :: "change \<Rightarrow> db_models_Product list \<Rightarrow> error + db_models_Product list" where
  "apply_change (Insert obj) rows =
     (if db_models_Product.id' obj \<in> set (map db_models_Product.id' rows)
      then Inl IntegrityError else Inr (rows @ [obj]))"
| "apply_change (Update k obj) rows =
     Inr (map (\<lambda>row. if db_models_Product.id' row = k then obj else row) rows)"
| "apply_change (Delete obj) rows =
     Inr (filter (\<lambda>row. db_models_Product.id' row \<noteq> db_models_Product.id' obj) rows)"

text \<open>Flushing sends one statement per pending change, in order, and stops at the first failure.\<close>

fun flush :: "change list \<Rightarrow> Session \<Rightarrow> unit result" where
  "flush [] db = (Inr (), db\<lparr>pending := []\<rparr>)"
| "flush (c # cs) db =
     and_then (execute db)
       (\<lambda>_ db. case apply_change c (working db) of
                  Inl e \<Rightarrow> (Inl e, db)
                | Inr rows \<Rightarrow> flush cs (db\<lparr>working := rows\<rparr>))"

text \<open>
  \<^verbatim>\<open>db.commit()\<close>: flush, then COMMIT; only then the changes are in the database, and
  the transaction is over.
\<close>

definition commit :: "Session \<Rightarrow> unit result" where
  "commit db =
     and_then (flush (pending db) db)
       (\<lambda>_ db. and_then (execute db)
          (\<lambda>_ db. (Inr (), db\<lparr>database := working db, begun := False\<rparr>)))"

text \<open>
  \<^verbatim>\<open>db.rollback()\<close> drops what the transaction did. While a transaction is open on the
  server this is a ROLLBACK sent to it, a statement like the others: it can fail, and
  then the call raises and the transaction stays as it is. With no transaction open
  nothing is sent, and only the changes registered with the session are dropped.
\<close>

definition rollback :: "Session \<Rightarrow> unit result" where
  "rollback db =
     (if begun db
      then and_then (execute db)
             (\<lambda>_ db. (Inr (), db\<lparr>working := database db, pending := [], begun := False\<rparr>))
      else (Inr (), db\<lparr>working := database db, pending := []\<rparr>))"

text \<open>
  \<^verbatim>\<open>db.close()\<close> rolls an open transaction back in the same way, and then releases the
  session; when that ROLLBACK fails the call raises and the session is not released. On
  a session without an open transaction (so also on one that is closed already)
  \<^verbatim>\<open>close()\<close> sends nothing and cannot fail.
\<close>

definition close :: "Session \<Rightarrow> unit result" where
  "close db =
     (if begun db
      then and_then (execute db)
             (\<lambda>_ db. (Inr (), db\<lparr>working := database db, pending := [], begun := False,
                                  closed := True\<rparr>))
      else (Inr (), db\<lparr>working := database db, pending := [], closed := True\<rparr>))"

section \<open>\<^verbatim>\<open>main.py\<close>\<close>

text \<open>Python's \<^verbatim>\<open>str\<close> of an integer, as an f-string formats \<^verbatim>\<open>{id}\<close>.\<close>

fun str_nat :: "nat \<Rightarrow> string" where
  "str_nat n =
     (if n < 10 then [''0123456789'' ! n]
      else str_nat (n div 10) @ [''0123456789'' ! (n mod 10)])"

declare str_nat.simps [simp del]

definition str :: "int \<Rightarrow> string" where
  "str i = (if i < 0 then CHR ''-'' # str_nat (nat (- i)) else str_nat (nat i))"

text \<open>
  What a handler returns: a string, the request body, a row, or a list of rows.
\<close>

datatype response =
    Text string
  | Body Product
  | Row db_models_Product
  | Rows "db_models_Product list"

definition greet :: "string" where
  "greet = ''This is Malay''"

text \<open>
  \<^verbatim>\<open>get_db\<close>: the dependency that gives a handler its session and closes it when the
  handler is done, whether it returned or raised.
\<close>

definition get_db ::
  "(Session \<Rightarrow> 'a result) \<Rightarrow> bool list \<Rightarrow> db_models_Product list \<Rightarrow> 'a result" where
  "get_db handler fs tbl = try_finally handler close (session fs tbl)"

definition sample_products :: "db_models_Product list" where
  "sample_products =
     [\<lparr>db_models_Product.id' = 1, db_models_Product.name = ''phone'',
       db_models_Product.description = ''samsung'', db_models_Product.price = 54000.3,
       db_models_Product.quantity = 15\<rparr>,
      \<lparr>db_models_Product.id' = 4, db_models_Product.name = ''Laptop'',
       db_models_Product.description = ''samsung'', db_models_Product.price = 740000,
       db_models_Product.quantity = 5\<rparr>,
      \<lparr>db_models_Product.id' = 3, db_models_Product.name = ''Charger'',
       db_models_Product.description = ''Mobile Charger'', db_models_Product.price = 52,
       db_models_Product.quantity = 32\<rparr>]"

text \<open>
  \<^verbatim>\<open>init_db\<close>, called once when the module is loaded. The early \<^verbatim>\<open>return\<close> of the
  non-empty case is inside the \<^verbatim>\<open>try\<close>, so the \<^verbatim>\<open>finally\<close> block closes the session a
  second time. The calls of \<^verbatim>\<open>print\<close> are left out.
\<close>

definition init_db :: "bool list \<Rightarrow> db_models_Product list \<Rightarrow> unit result" where
  "init_db fs tbl =
     try_finally
       (try_except
          (\<lambda>db. and_then (query_count db)
             (\<lambda>existing_count db.
                if existing_count > 0 then close db
                else commit (fold add sample_products db)))
          (\<lambda>e db. rollback db))
       close
       (session fs tbl)"

definition get_all_products :: "Session \<Rightarrow> response result" where
  "get_all_products db =
     and_then (query_all db) (\<lambda>db_products db. (Inr (Rows db_products), db))"

definition get_product_by_id :: "int \<Rightarrow> Session \<Rightarrow> response result" where
  "get_product_by_id k db =
     and_then (query_filter_id_first k db)
       (\<lambda>db_product db.
          case db_product of
            Some row \<Rightarrow> (Inr (Row row), db)
          | None \<Rightarrow>
              (Inr (Text (''Product with id '' @ str k
                          @ '' not found, please verify the id, or try by name.'')), db))"

definition add_product :: "Product \<Rightarrow> Session \<Rightarrow> response result" where
  "add_product product db =
     and_then (commit (add (model_dump product) db)) (\<lambda>_ db. (Inr (Body product), db))"

definition update_product :: "int \<Rightarrow> Product \<Rightarrow> Session \<Rightarrow> response result" where
  "update_product k product db =
     and_then (query_filter_id_first k db)
       (\<lambda>db_product db.
          case db_product of
            Some row \<Rightarrow>
              and_then
                (commit (dirty k
                   (row\<lparr>db_models_Product.name := Product.name product,
                        db_models_Product.description := Product.description product,
                        db_models_Product.price := Product.price product,
                        db_models_Product.quantity := Product.quantity product\<rparr>) db))
                (\<lambda>_ db. (Inr (Text (''Information for product id: '' @ str k @ '' and name: ''
                                     @ Product.name product @ '' updated'')), db))
          | None \<Rightarrow> (Inr (Text (''No product with id '' @ str k @ '' found'')), db))"

definition delete_product_from_id :: "int \<Rightarrow> Session \<Rightarrow> response result" where
  "delete_product_from_id k db =
     and_then (query_filter_id_first k db)
       (\<lambda>db_product db.
          case db_product of
            Some row \<Rightarrow>
              and_then (commit (delete row db))
                (\<lambda>_ db. (Inr (Text (''Product with id '' @ str k @ '' deleted successfully.'')), db))
          | None \<Rightarrow>
              (Inr (Text (''Product Not found, please check the '' @ str k @ '' again'')), db))"

text \<open>
  The routes. The path of the POST route is \<^verbatim>\<open>/products/{id}\<close>, but \<^verbatim>\<open>add_product\<close> has
  no parameter \<^verbatim>\<open>id\<close>: the path segment is any text and reaches no code. A request
  is served in a session of its own, in an environment \<open>fs\<close>; what the next request
  finds is the database the session leaves behind.
\<close>

datatype request =
    GET_root
  | GET_products
  | GET_products_id int
  | POST_products string Product
  | PUT_products int Product
  | DELETE_products_del_id int

definition respond :: "'a result \<Rightarrow> (error + 'a) \<times> db_models_Product list" where
  "respond r = (fst r, database (snd r))"

fun app ::
  "request \<Rightarrow> bool list \<Rightarrow> db_models_Product list \<Rightarrow>
     (error + response) \<times> db_models_Product list" where
  "app GET_root fs tbl = (Inr (Text greet), tbl)"
| "app GET_products fs tbl = respond (get_db get_all_products fs tbl)"
| "app (GET_products_id k) fs tbl = respond (get_db (get_product_by_id k) fs tbl)"
| "app (POST_products path product) fs tbl = respond (get_db (add_product product) fs tbl)"
| "app (PUT_products k product) fs tbl = respond (get_db (update_product k product) fs tbl)"
| "app (DELETE_products_del_id k) fs tbl = respond (get_db (delete_product_from_id k) fs tbl)"

section \<open>Requests of the specification's examples\<close>

definition mouse :: Product where
  "mouse =
     \<lparr>Product.id' = 2, Product.name = ''Mouse'', Product.description = ''wireless'',
      Product.price = 20.0, Product.quantity = 100\<rparr>"

definition phone_pro :: Product where
  "phone_pro =
     \<lparr>Product.id' = 7, Product.name = ''Phone Pro'', Product.description = ''samsung'',
      Product.price = 60000, Product.quantity = 10\<rparr>"

declare app.simps [simp del]

section \<open>Properties of the session\<close>

lemma and_then_Inl [simp]: "and_then (Inl e, db) f = (Inl e, db)"
  by (simp add: and_then_def)

lemma and_then_Inr [simp]: "and_then (Inr x, db) f = f x db"
  by (simp add: and_then_def)

lemma execute_eq:
  "execute db =
     (if faults db \<noteq> [] \<and> hd (faults db) then Inl OperationalError else Inr (),
      db\<lparr>faults := tl (faults db), begun := True\<rparr>)"
  by (cases db) (simp add: execute_def split: list.split)

lemma execute_healthy [simp]:
  "faults db = [] \<Longrightarrow> execute db = (Inr (), db\<lparr>begun := True\<rparr>)"
  by (simp add: execute_def)

text \<open>Nothing reaches the database before COMMIT has succeeded.\<close>

lemma database_flush: "database (snd (flush cs db)) = database db"
  by (induction cs arbitrary: db) (simp_all add: execute_eq split: sum.split)

lemma flush_cases:
  obtains e db' where "flush cs db = (Inl e, db')" "database db' = database db"
  | db' where "flush cs db = (Inr (), db')" "database db' = database db"
proof (cases "flush cs db")
  case (Pair r db')
  with database_flush [of cs db] have "database db' = database db"
    by simp
  with Pair that show ?thesis
    by (cases r) auto
qed

lemma database_commit_Inl:
  assumes "commit db = (Inl e, db')"
  shows "database db' = database db"
proof (cases rule: flush_cases [of "pending db" db])
  case (1 e1 db1)
  with assms show ?thesis
    by (simp add: commit_def)
next
  case (2 db1)
  with assms show ?thesis
    by (auto simp: commit_def execute_eq split: if_splits)
qed

lemmas route_defs =
  respond_def get_db_def try_finally_def close_def session_def commit_def
  query_filter_id_first_def query_all_def add_def dirty_def delete_def app.simps

section \<open>The routes in an environment without failures\<close>

lemma init_db_healthy:
  "init_db [] tbl =
     (Inr (),
      \<lparr>database = (if tbl = [] then sample_products else tbl),
       working = (if tbl = [] then sample_products else tbl),
       pending = [], faults = [], begun = False, closed = True\<rparr>)"
  by (simp add: init_db_def try_finally_def try_except_def query_count_def session_def
        close_def commit_def add_def sample_products_def rollback_def)

lemma get_healthy:
  "app (GET_products_id k) [] tbl =
     (case find (\<lambda>row. db_models_Product.id' row = k) tbl of
        Some row \<Rightarrow> Inr (Row row)
      | None \<Rightarrow> Inr (Text (''Product with id '' @ str k
                          @ '' not found, please verify the id, or try by name.'')),
      tbl)"
  by (simp add: route_defs get_product_by_id_def split: option.split)

lemma post_healthy:
  "app (POST_products path product) [] tbl =
     (if Product.id' product \<in> set (map db_models_Product.id' tbl)
      then (Inl IntegrityError, tbl)
      else (Inr (Body product), tbl @ [model_dump product]))"
  by (simp add: route_defs add_product_def model_dump_def)

lemma put_healthy:
  "app (PUT_products k product) [] tbl =
     (case find (\<lambda>row. db_models_Product.id' row = k) tbl of
        Some row \<Rightarrow>
          (Inr (Text (''Information for product id: '' @ str k @ '' and name: ''
                      @ Product.name product @ '' updated'')),
           map (\<lambda>r. if db_models_Product.id' r = k
                    then row\<lparr>db_models_Product.name := Product.name product,
                             db_models_Product.description := Product.description product,
                             db_models_Product.price := Product.price product,
                             db_models_Product.quantity := Product.quantity product\<rparr>
                    else r) tbl)
      | None \<Rightarrow> (Inr (Text (''No product with id '' @ str k @ '' found'')), tbl))"
  by (simp add: route_defs update_product_def split: option.split)

lemma delete_healthy:
  "app (DELETE_products_del_id k) [] tbl =
     (case find (\<lambda>row. db_models_Product.id' row = k) tbl of
        Some row \<Rightarrow>
          (Inr (Text (''Product with id '' @ str k @ '' deleted successfully.'')),
           filter (\<lambda>r. db_models_Product.id' r \<noteq> db_models_Product.id' row) tbl)
      | None \<Rightarrow>
          (Inr (Text (''Product Not found, please check the '' @ str k @ '' again'')), tbl))"
  by (simp add: route_defs delete_product_from_id_def split: option.split)

lemma find_id_None:
  "find (\<lambda>row. db_models_Product.id' row = k) tbl = None
     \<longleftrightarrow> k \<notin> set (map db_models_Product.id' tbl)"
  by (auto simp: find_None_iff)

lemma find_id_Some:
  "find (\<lambda>row. db_models_Product.id' row = k) tbl = Some row
     \<Longrightarrow> row \<in> set tbl \<and> db_models_Product.id' row = k"
  by (auto simp: find_Some_iff)

lemma find_id_distinct:
  "distinct (map db_models_Product.id' tbl) \<Longrightarrow> row \<in> set tbl \<Longrightarrow>
   find (\<lambda>r. db_models_Product.id' r = db_models_Product.id' row) tbl = Some row"
  by (induction tbl) auto

lemma str_999: "str 999 = ''999''"
  by (simp add: str_def str_nat.simps)

lemma str_1: "str 1 = ''1''"
  by (simp add: str_def str_nat.simps)

lemma str_4: "str 4 = ''4''"
  by (simp add: str_def str_nat.simps)

lemma model_dump_sel [simp]:
  "db_models_Product.id' (model_dump p) = Product.id' p"
  "db_models_Product.name (model_dump p) = Product.name p"
  "db_models_Product.description (model_dump p) = Product.description p"
  "db_models_Product.price (model_dump p) = Product.price p"
  "db_models_Product.quantity (model_dump p) = Product.quantity p"
  by (simp_all add: model_dump_def)

lemma find_map_update:
  "k \<in> set (map db_models_Product.id' tbl) \<Longrightarrow> db_models_Product.id' obj = k \<Longrightarrow>
   find (\<lambda>r. db_models_Product.id' r = k)
     (map (\<lambda>r. if db_models_Product.id' r = k then obj else r) tbl) = Some obj"
  by (induction tbl) auto

lemma find_id_in:
  assumes "k \<in> set (map db_models_Product.id' tbl)"
  obtains row where "find (\<lambda>r. db_models_Product.id' r = k) tbl = Some row"
    "row \<in> set tbl" "db_models_Product.id' row = k"
proof (cases "find (\<lambda>r. db_models_Product.id' r = k) tbl")
  case None
  with assms find_id_None [of k tbl] show ?thesis by simp
next
  case (Some row)
  with find_id_Some [of k tbl row] that show ?thesis by simp
qed

lemma sublist_third: "sublist xs (a @ b @ c @ xs @ d)"
  by (metis append.assoc sublist_appendI)

text \<open>A row has the five columns and nothing else: two rows of one key agree once the other four are set.\<close>

lemma same_key_same_update:
  "db_models_Product.id' r = db_models_Product.id' row \<Longrightarrow>
   (r::db_models_Product)\<lparr>db_models_Product.name := a, db_models_Product.description := b,
      db_models_Product.price := c, db_models_Product.quantity := d\<rparr> =
   row\<lparr>db_models_Product.name := a, db_models_Product.description := b,
        db_models_Product.price := c, db_models_Product.quantity := d\<rparr>"
  by (cases r, cases row) simp

text \<open>
  In every environment: \<^verbatim>\<open>close()\<close> and \<^verbatim>\<open>rollback()\<close> leave the database alone whether
  they fail or not, and an exception raised under \<^verbatim>\<open>finally\<close> still leaves as an
  exception.
\<close>

lemma database_close: "database (snd (close db)) = database db"
  by (simp add: close_def execute_eq and_then_def)

lemma database_rollback: "database (snd (rollback db)) = database db"
  by (simp add: rollback_def execute_eq and_then_def)

lemma database_try_finally_close:
  "database (snd (try_finally body close db)) = database (snd (body db))"
  using database_close [of "snd (body db)"]
  by (auto simp: try_finally_def split: prod.split sum.split)

lemma raised_try_finally:
  "fst (body db) = Inl e \<Longrightarrow> \<exists>e'. fst (try_finally body final db) = Inl e'"
  by (auto simp: try_finally_def split: prod.split sum.split)

lemma list_table: "snd (app GET_products fs tbl) = tbl"
  by (simp add: app.simps respond_def get_db_def database_try_finally_close
        get_all_products_def query_all_def execute_eq session_def)

lemma get_table: "snd (app (GET_products_id k) fs tbl) = tbl"
  by (simp add: app.simps respond_def get_db_def database_try_finally_close
        get_product_by_id_def query_filter_id_first_def execute_eq session_def
        split: option.split)

lemma add_product_duplicate_raises:
  assumes "Product.id' product \<in> set (map db_models_Product.id' tbl)"
  shows "\<exists>e. fst (add_product product (session fs tbl)) = Inl e"
  using assms
  by (auto simp: add_product_def commit_def add_def session_def execute_eq)

lemma add_product_duplicate_database:
  assumes "Product.id' product \<in> set (map db_models_Product.id' tbl)"
  shows "database (snd (add_product product (session fs tbl))) = tbl"
  using assms
  by (auto simp: add_product_def commit_def add_def session_def execute_eq)

lemma post_fails:
  assumes "Product.id' product \<in> set (map db_models_Product.id' tbl)"
  shows "\<exists>e. app (POST_products path product) fs tbl = (Inl e, tbl)"
proof -
  from assms obtain e where "fst (add_product product (session fs tbl)) = Inl e"
    using add_product_duplicate_raises by blast
  then obtain e' where "fst (get_db (add_product product) fs tbl) = Inl e'"
    unfolding get_db_def using raised_try_finally by blast
  moreover have "database (snd (get_db (add_product product) fs tbl)) = tbl"
    using assms
    by (simp add: get_db_def database_try_finally_close add_product_duplicate_database)
  ultimately show ?thesis
    by (simp add: app.simps respond_def)
qed







lemma put_table:
  "snd (app (PUT_products k product) [] tbl) =
     map (\<lambda>r. if db_models_Product.id' r = k
              then r\<lparr>db_models_Product.name := Product.name product,
                     db_models_Product.description := Product.description product,
                     db_models_Product.price := Product.price product,
                     db_models_Product.quantity := Product.quantity product\<rparr>
              else r) tbl"
proof (cases "find (\<lambda>r. db_models_Product.id' r = k) tbl")
  case None
  then have "\<forall>r \<in> set tbl. db_models_Product.id' r \<noteq> k"
    using find_id_None [of k tbl] by auto
  then have "map (\<lambda>r. if db_models_Product.id' r = k
              then r\<lparr>db_models_Product.name := Product.name product,
                     db_models_Product.description := Product.description product,
                     db_models_Product.price := Product.price product,
                     db_models_Product.quantity := Product.quantity product\<rparr>
              else r) tbl = tbl"
    by (simp add: map_idI)
  with None show ?thesis
    by (simp add: put_healthy)
next
  case (Some row)
  then have "db_models_Product.id' row = k"
    using find_id_Some by blast
  with Some show ?thesis
    by (auto simp: put_healthy intro: same_key_same_update)
qed

lemma put_keys:
  "map db_models_Product.id' (snd (app (PUT_products k product) [] tbl)) =
     map db_models_Product.id' tbl"
  by (simp add: put_table)

lemma delete_eq:
  "app (DELETE_products_del_id k) [] tbl =
     (if k \<in> set (map db_models_Product.id' tbl)
      then (Inr (Text (''Product with id '' @ str k @ '' deleted successfully.'')),
            filter (\<lambda>r. db_models_Product.id' r \<noteq> k) tbl)
      else (Inr (Text (''Product Not found, please check the '' @ str k @ '' again'')), tbl))"
proof (cases "find (\<lambda>r. db_models_Product.id' r = k) tbl")
  case None
  with find_id_None [of k tbl] show ?thesis
    by (simp add: delete_healthy)
next
  case (Some row)
  with find_id_Some [of k tbl row] show ?thesis
    by (auto simp: delete_healthy)
qed

text \<open>
  The primary key stays unique: a table without two rows of one id is followed by such a
  table, after seeding and after every request.
\<close>

lemma primary_key_unique_init_db:
  "distinct (map db_models_Product.id' tbl) \<Longrightarrow>
   distinct (map db_models_Product.id' (database (snd (init_db [] tbl))))"
  by (simp add: init_db_healthy sample_products_def)

lemma primary_key_unique_app:
  assumes "distinct (map db_models_Product.id' tbl)"
  shows "distinct (map db_models_Product.id' (snd (app req [] tbl)))"
proof (cases req)
  case GET_root
  with assms show ?thesis by (simp add: app.simps)
next
  case GET_products
  with assms show ?thesis by (simp add: list_table)
next
  case (GET_products_id k)
  with assms show ?thesis by (simp add: get_table)
next
  case (POST_products path product)
  with assms show ?thesis by (simp add: post_healthy)
next
  case (PUT_products k product)
  with assms show ?thesis by (simp only: put_keys)
next
  case (DELETE_products_del_id k)
  with assms show ?thesis
    by (simp add: delete_eq distinct_map_filter)
qed


section \<open>Startup seeding\<close>

text \<open>
  C1. When no statement fails, \<^verbatim>\<open>init_db\<close> leaves in the database the three fixed
  rows (ids 1, 4 and 3, with their names, descriptions, prices and quantities) if the
  table was empty, and exactly the table it found otherwise: seeding a table that holds
  a row changes nothing.
\<close>

theorem init_db_seeds_iff_empty:
  "database (snd (init_db [] tbl)) =
     (if tbl = []
      then [\<lparr>db_models_Product.id' = 1, db_models_Product.name = ''phone'',
             db_models_Product.description = ''samsung'', db_models_Product.price = 54000.3,
             db_models_Product.quantity = 15\<rparr>,
            \<lparr>db_models_Product.id' = 4, db_models_Product.name = ''Laptop'',
             db_models_Product.description = ''samsung'', db_models_Product.price = 740000,
             db_models_Product.quantity = 5\<rparr>,
            \<lparr>db_models_Product.id' = 3, db_models_Product.name = ''Charger'',
             db_models_Product.description = ''Mobile Charger'', db_models_Product.price = 52,
             db_models_Product.quantity = 32\<rparr>]
      else tbl)"
  by (simp add: init_db_healthy sample_products_def)

text \<open>Seeding the empty table gives three rows, ids 1, 3 and 4; a restart on them changes nothing.\<close>

theorem init_db_seeds_iff_empty_witness:
  "set (map db_models_Product.id' (database (snd (init_db [] [])))) = {1, 3, 4} \<and>
   length (database (snd (init_db [] []))) = 3 \<and>
   database (snd (init_db [] (database (snd (init_db [] []))))) = database (snd (init_db [] []))"
  using init_db_seeds_iff_empty [of "[]"]
    init_db_seeds_iff_empty [of "database (snd (init_db [] []))"]
  by auto




section \<open>Reading\<close>

text \<open>
  C2. When no statement fails, get-by-id returns the stored row that has the requested
  id (the primary key makes it the only one), and for an id that no row has it returns
  the not-found string, which contains the id as Python prints it.
\<close>

theorem get_product_by_id_row_or_text:
  "(distinct (map db_models_Product.id' tbl) \<longrightarrow>
      (\<forall>row \<in> set tbl.
         fst (app (GET_products_id (db_models_Product.id' row)) [] tbl) = Inr (Row row))) \<and>
   (k \<notin> set (map db_models_Product.id' tbl) \<longrightarrow>
      fst (app (GET_products_id k) [] tbl) =
        Inr (Text (''Product with id '' @ str k
                   @ '' not found, please verify the id, or try by name.'')) \<and>
      sublist (str k)
        (''Product with id '' @ str k @ '' not found, please verify the id, or try by name.''))"
proof (intro conjI impI ballI)
  fix row
  assume "distinct (map db_models_Product.id' tbl)" and "row \<in> set tbl"
  then show "fst (app (GET_products_id (db_models_Product.id' row)) [] tbl) = Inr (Row row)"
    by (simp add: get_healthy find_id_distinct)
next
  assume "k \<notin> set (map db_models_Product.id' tbl)"
  then have "find (\<lambda>row. db_models_Product.id' row = k) tbl = None"
    using find_id_None [of k tbl] by blast
  then show "fst (app (GET_products_id k) [] tbl) =
        Inr (Text (''Product with id '' @ str k
                   @ '' not found, please verify the id, or try by name.''))"
    by (simp add: get_healthy)
next
  show "sublist (str k)
        (''Product with id '' @ str k @ '' not found, please verify the id, or try by name.'')"
    by (rule sublist_appendI)
qed

text \<open>After seeding: id 1 is the phone at 54000.3 with quantity 15, and id 999 is not found.\<close>

theorem get_product_by_id_row_or_text_witness:
  "fst (app (GET_products_id 1) [] (database (snd (init_db [] [])))) =
     Inr (Row \<lparr>db_models_Product.id' = 1, db_models_Product.name = ''phone'',
               db_models_Product.description = ''samsung'', db_models_Product.price = 54000.3,
               db_models_Product.quantity = 15\<rparr>) \<and>
   fst (app (GET_products_id 999) [] (database (snd (init_db [] [])))) =
     Inr (Text ''Product with id 999 not found, please verify the id, or try by name.'') \<and>
   sublist ''999'' ''Product with id 999 not found, please verify the id, or try by name.''"
  using get_product_by_id_row_or_text [of sample_products 999]
  by (simp add: init_db_healthy sample_products_def str_999)

text \<open>
  C10. Listing and get-by-id leave the table as it was, for every table, every id and
  every environment: whether the row is found or not, and whether the query fails or not.
\<close>

theorem reads_leave_table:
  "snd (app GET_products fs tbl) = tbl \<and> snd (app (GET_products_id k) fs tbl) = tbl"
  by (simp add: list_table get_table)

theorem reads_leave_table_witness:
  "snd (app GET_products [True] sample_products) = sample_products \<and>
   snd (app (GET_products_id 999) [] sample_products) = sample_products \<and>
   snd (app (GET_products_id 1) [False] sample_products) = sample_products"
  using reads_leave_table [of "[True]" sample_products 999]
    reads_leave_table [of "[]" sample_products 999]
    reads_leave_table [of "[False]" sample_products 1]
  by simp

section \<open>Creating\<close>

text \<open>
  C3, as it is written, for every create request: on the seeded table, a request whose
  body has id 1 is not echoed, and no row with the fields of its body is stored.
\<close>

theorem add_product_always_persists_counterexample:
  "fst (app (POST_products ''1'' (mouse\<lparr>Product.id' := 1\<rparr>)) [] sample_products) \<noteq>
     Inr (Body (mouse\<lparr>Product.id' := 1\<rparr>)) \<and>
   model_dump (mouse\<lparr>Product.id' := 1\<rparr>) \<notin>
     set (snd (app (POST_products ''1'' (mouse\<lparr>Product.id' := 1\<rparr>)) [] sample_products))"
  by (simp add: post_healthy sample_products_def mouse_def model_dump_def)

text \<open>
  C3, amended. When no statement fails and no stored row has the id of the body, the
  create operation stores a row whose five fields are those of the body, after the rows
  already there, and returns the body as it came. For every create request and every
  environment, the text in the place of the id in the path changes neither the response
  nor the table.
\<close>

theorem add_product_persists_and_echoes:
  "(Product.id' product \<notin> set (map db_models_Product.id' tbl) \<longrightarrow>
      app (POST_products path product) [] tbl = (Inr (Body product), tbl @ [model_dump product]) \<and>
      db_models_Product.id' (model_dump product) = Product.id' product \<and>
      db_models_Product.name (model_dump product) = Product.name product \<and>
      db_models_Product.description (model_dump product) = Product.description product \<and>
      db_models_Product.price (model_dump product) = Product.price product \<and>
      db_models_Product.quantity (model_dump product) = Product.quantity product) \<and>
   app (POST_products path_a product) fs tbl = app (POST_products path_b product) fs tbl"
  by (simp add: post_healthy) (simp add: app.simps)

text \<open>The mouse of the specification, created on the seeded table under two different paths.\<close>

theorem add_product_persists_and_echoes_witness:
  "app (POST_products ''2'' mouse) [] sample_products =
     (Inr (Body mouse),
      sample_products @
        [\<lparr>db_models_Product.id' = 2, db_models_Product.name = ''Mouse'',
          db_models_Product.description = ''wireless'', db_models_Product.price = 20,
          db_models_Product.quantity = 100\<rparr>]) \<and>
   app (POST_products ''2'' mouse) [True] sample_products =
     app (POST_products ''11'' mouse) [True] sample_products"
  using add_product_persists_and_echoes
      [where product = mouse and tbl = sample_products and path = "''2''"
         and path_a = "''2''" and path_b = "''11''" and fs = "[True]"]
  by (simp add: sample_products_def mouse_def model_dump_def)

text \<open>
  C4. A create request whose id a stored row already has ends in an exception and not
  in a response: \<open>IntegrityError\<close> when no statement fails, and some exception in
  every environment. The table, and so the row that had the id, is unchanged.
\<close>

theorem add_product_duplicate_id_fails:
  "Product.id' product \<in> set (map db_models_Product.id' tbl) \<longrightarrow>
     app (POST_products path product) [] tbl = (Inl IntegrityError, tbl) \<and>
     (\<forall>fs. \<exists>e. app (POST_products path product) fs tbl = (Inl e, tbl))"
  using post_fails [of product tbl path]
  by (auto simp add: post_healthy)

text \<open>The mouse created a second time.\<close>

theorem add_product_duplicate_id_fails_witness:
  "snd (app (POST_products ''2'' mouse) [] sample_products) = sample_products @ [model_dump mouse] \<and>
   app (POST_products ''2'' mouse) [] (sample_products @ [model_dump mouse]) =
     (Inl IntegrityError, sample_products @ [model_dump mouse])"
  using add_product_duplicate_id_fails
      [where product = mouse and tbl = "sample_products @ [model_dump mouse]" and path = "''2''"]
  by (simp add: post_healthy sample_products_def mouse_def model_dump_def)

section \<open>Updating\<close>

text \<open>
  C5. When no statement fails: if a row has the id of the path, the update returns the
  success string, which contains that id and the name of the body, and a get-by-id of
  that id then returns a row with the name, description, price and quantity of the body;
  if no row has it, the update returns the string saying so and leaves the table as it
  was.
\<close>

theorem update_product_success_or_not_found:
  "(k \<in> set (map db_models_Product.id' tbl) \<longrightarrow>
      fst (app (PUT_products k product) [] tbl) =
        Inr (Text (''Information for product id: '' @ str k @ '' and name: ''
                   @ Product.name product @ '' updated'')) \<and>
      sublist (str k)
        (''Information for product id: '' @ str k @ '' and name: ''
         @ Product.name product @ '' updated'') \<and>
      sublist (Product.name product)
        (''Information for product id: '' @ str k @ '' and name: ''
         @ Product.name product @ '' updated'') \<and>
      (\<exists>row. fst (app (GET_products_id k) [] (snd (app (PUT_products k product) [] tbl))) =
               Inr (Row row) \<and>
             db_models_Product.name row = Product.name product \<and>
             db_models_Product.description row = Product.description product \<and>
             db_models_Product.price row = Product.price product \<and>
             db_models_Product.quantity row = Product.quantity product)) \<and>
   (k \<notin> set (map db_models_Product.id' tbl) \<longrightarrow>
      app (PUT_products k product) [] tbl =
        (Inr (Text (''No product with id '' @ str k @ '' found'')), tbl))"
proof (intro conjI impI)
  assume "k \<in> set (map db_models_Product.id' tbl)"
  then obtain row where row: "find (\<lambda>r. db_models_Product.id' r = k) tbl = Some row"
    "db_models_Product.id' row = k"
    by (rule find_id_in)
  from row show "fst (app (PUT_products k product) [] tbl) =
        Inr (Text (''Information for product id: '' @ str k @ '' and name: ''
                   @ Product.name product @ '' updated''))"
    by (simp add: put_healthy)
  let ?obj = "row\<lparr>db_models_Product.name := Product.name product,
                  db_models_Product.description := Product.description product,
                  db_models_Product.price := Product.price product,
                  db_models_Product.quantity := Product.quantity product\<rparr>"
  have "find (\<lambda>r. db_models_Product.id' r = k)
          (map (\<lambda>r. if db_models_Product.id' r = k then ?obj else r) tbl) = Some ?obj"
    using \<open>k \<in> set (map db_models_Product.id' tbl)\<close> row(2)
    by (intro find_map_update) simp_all
  with row have "fst (app (GET_products_id k) [] (snd (app (PUT_products k product) [] tbl))) =
      Inr (Row ?obj)"
    by (simp add: put_healthy get_healthy)
  then show "\<exists>row. fst (app (GET_products_id k) [] (snd (app (PUT_products k product) [] tbl))) =
               Inr (Row row) \<and>
             db_models_Product.name row = Product.name product \<and>
             db_models_Product.description row = Product.description product \<and>
             db_models_Product.price row = Product.price product \<and>
             db_models_Product.quantity row = Product.quantity product"
    by simp
next
  show "sublist (str k)
        (''Information for product id: '' @ str k @ '' and name: ''
         @ Product.name product @ '' updated'')"
    by (rule sublist_appendI)
next
  show "sublist (Product.name product)
        (''Information for product id: '' @ str k @ '' and name: ''
         @ Product.name product @ '' updated'')"
    by (rule sublist_third)
next
  assume "k \<notin> set (map db_models_Product.id' tbl)"
  then have "find (\<lambda>row. db_models_Product.id' row = k) tbl = None"
    using find_id_None [of k tbl] by blast
  then show "app (PUT_products k product) [] tbl =
        (Inr (Text (''No product with id '' @ str k @ '' found'')), tbl)"
    by (simp add: put_healthy)
qed

text \<open>The seeded phone renamed to Phone Pro, and an update of id 999.\<close>

theorem update_product_success_or_not_found_witness:
  "fst (app (PUT_products 1 phone_pro) [] sample_products) =
     Inr (Text ''Information for product id: 1 and name: Phone Pro updated'') \<and>
   sublist ''1'' ''Information for product id: 1 and name: Phone Pro updated'' \<and>
   sublist ''Phone Pro'' ''Information for product id: 1 and name: Phone Pro updated'' \<and>
   (\<exists>row. fst (app (GET_products_id 1) [] (snd (app (PUT_products 1 phone_pro) [] sample_products))) =
            Inr (Row row) \<and> db_models_Product.name row = ''Phone Pro'') \<and>
   app (PUT_products 999 phone_pro) [] sample_products =
     (Inr (Text ''No product with id 999 found''), sample_products)"
  using update_product_success_or_not_found [of 1 sample_products phone_pro]
    update_product_success_or_not_found [of 999 sample_products phone_pro]
  by (auto simp add: sample_products_def phone_pro_def str_1 str_999)

text \<open>
  C6, as it is written, with the id among the replaced fields: the seeded row 1 updated
  with a body of id 7 succeeds, and no stored row has id 7 afterwards.
\<close>

theorem update_product_replaces_id_counterexample:
  "fst (app (PUT_products 1 phone_pro) [] sample_products) =
     Inr (Text ''Information for product id: 1 and name: Phone Pro updated'') \<and>
   Product.id' phone_pro \<notin>
     set (map db_models_Product.id' (snd (app (PUT_products 1 phone_pro) [] sample_products)))"
  by (simp add: put_healthy sample_products_def phone_pro_def str_1)

text \<open>
  C6, amended. When no statement fails, an update of a stored id \<open>k\<close> replaces every
  field but the id: afterwards a row with id \<open>k\<close> is stored, and every stored row with
  id \<open>k\<close> has the name, description, price and quantity of the body.
\<close>

theorem update_product_replaces_other_fields:
  "k \<in> set (map db_models_Product.id' tbl) \<longrightarrow>
     k \<in> set (map db_models_Product.id' (snd (app (PUT_products k product) [] tbl))) \<and>
     (\<forall>row \<in> set (snd (app (PUT_products k product) [] tbl)).
        db_models_Product.id' row = k \<longrightarrow>
          db_models_Product.name row = Product.name product \<and>
          db_models_Product.description row = Product.description product \<and>
          db_models_Product.price row = Product.price product \<and>
          db_models_Product.quantity row = Product.quantity product)"
  by (auto simp: put_table)

text \<open>The seeded table after the update of id 1.\<close>

theorem update_product_replaces_other_fields_witness:
  "1 \<in> set (map db_models_Product.id' sample_products) \<and>
   snd (app (PUT_products 1 phone_pro) [] sample_products) =
     [\<lparr>db_models_Product.id' = 1, db_models_Product.name = ''Phone Pro'',
       db_models_Product.description = ''samsung'', db_models_Product.price = 60000,
       db_models_Product.quantity = 10\<rparr>,
      \<lparr>db_models_Product.id' = 4, db_models_Product.name = ''Laptop'',
       db_models_Product.description = ''samsung'', db_models_Product.price = 740000,
       db_models_Product.quantity = 5\<rparr>,
      \<lparr>db_models_Product.id' = 3, db_models_Product.name = ''Charger'',
       db_models_Product.description = ''Mobile Charger'', db_models_Product.price = 52,
       db_models_Product.quantity = 32\<rparr>] \<and>
   1 \<in> set (map db_models_Product.id'
             (snd (app (PUT_products 1 phone_pro) [] sample_products)))"
  using update_product_replaces_other_fields [of 1 sample_products phone_pro]
  by (simp add: put_healthy sample_products_def phone_pro_def)

text \<open>
  C9. When no statement fails, an update maps the table row by row: the rows with the id
  of the path get the name, description, price and quantity of the body and keep their
  id, every other row stays as it is. So the ids of the table are the same, in the same
  order, and when the id of the body differs from the path's, the rows with the id of
  the body are the same before and after: none is added, none is changed.
\<close>

theorem update_product_keeps_primary_key:
  "snd (app (PUT_products k product) [] tbl) =
     map (\<lambda>r. if db_models_Product.id' r = k
              then r\<lparr>db_models_Product.name := Product.name product,
                     db_models_Product.description := Product.description product,
                     db_models_Product.price := Product.price product,
                     db_models_Product.quantity := Product.quantity product\<rparr>
              else r) tbl \<and>
   map db_models_Product.id' (snd (app (PUT_products k product) [] tbl)) =
     map db_models_Product.id' tbl \<and>
   (Product.id' product \<noteq> k \<longrightarrow>
      filter (\<lambda>r. db_models_Product.id' r = Product.id' product)
        (snd (app (PUT_products k product) [] tbl)) =
      filter (\<lambda>r. db_models_Product.id' r = Product.id' product) tbl)"
proof (intro conjI impI)
  show "snd (app (PUT_products k product) [] tbl) =
     map (\<lambda>r. if db_models_Product.id' r = k
              then r\<lparr>db_models_Product.name := Product.name product,
                     db_models_Product.description := Product.description product,
                     db_models_Product.price := Product.price product,
                     db_models_Product.quantity := Product.quantity product\<rparr>
              else r) tbl"
    by (rule put_table)
  show "map db_models_Product.id' (snd (app (PUT_products k product) [] tbl)) =
     map db_models_Product.id' tbl"
    by (rule put_keys)
  assume "Product.id' product \<noteq> k"
  then show "filter (\<lambda>r. db_models_Product.id' r = Product.id' product)
        (snd (app (PUT_products k product) [] tbl)) =
      filter (\<lambda>r. db_models_Product.id' r = Product.id' product) tbl"
    unfolding put_table by (induction tbl) auto
qed

text \<open>An update of id 1 with a body of id 4: the laptop, row 4, is as it was.\<close>

theorem update_product_keeps_primary_key_witness:
  "Product.id' (phone_pro\<lparr>Product.id' := 4\<rparr>) \<noteq> 1 \<and>
   snd (app (PUT_products 1 (phone_pro\<lparr>Product.id' := 4\<rparr>)) [] sample_products) =
     [\<lparr>db_models_Product.id' = 1, db_models_Product.name = ''Phone Pro'',
       db_models_Product.description = ''samsung'', db_models_Product.price = 60000,
       db_models_Product.quantity = 10\<rparr>,
      \<lparr>db_models_Product.id' = 4, db_models_Product.name = ''Laptop'',
       db_models_Product.description = ''samsung'', db_models_Product.price = 740000,
       db_models_Product.quantity = 5\<rparr>,
      \<lparr>db_models_Product.id' = 3, db_models_Product.name = ''Charger'',
       db_models_Product.description = ''Mobile Charger'', db_models_Product.price = 52,
       db_models_Product.quantity = 32\<rparr>] \<and>
   filter (\<lambda>r. db_models_Product.id' r = 4)
     (snd (app (PUT_products 1 (phone_pro\<lparr>Product.id' := 4\<rparr>)) [] sample_products)) =
   filter (\<lambda>r. db_models_Product.id' r = 4) sample_products"
  using update_product_keeps_primary_key [of 1 "phone_pro\<lparr>Product.id' := 4\<rparr>" sample_products]
  by (simp add: sample_products_def phone_pro_def)

section \<open>Deleting\<close>

text \<open>
  C7. When no statement fails, a delete of a stored id removes its row and returns the
  success string, which contains the id; a delete of an id that no row has returns the
  not-found string and leaves the table as it was. After a delete no row has the id, so
  a second delete of the same id returns the not-found string and changes nothing.
\<close>

theorem delete_product_from_id_once:
  "app (DELETE_products_del_id k) [] tbl =
     (if k \<in> set (map db_models_Product.id' tbl)
      then (Inr (Text (''Product with id '' @ str k @ '' deleted successfully.'')),
            filter (\<lambda>r. db_models_Product.id' r \<noteq> k) tbl)
      else (Inr (Text (''Product Not found, please check the '' @ str k @ '' again'')), tbl)) \<and>
   sublist (str k) (''Product with id '' @ str k @ '' deleted successfully.'') \<and>
   k \<notin> set (map db_models_Product.id' (snd (app (DELETE_products_del_id k) [] tbl))) \<and>
   app (DELETE_products_del_id k) [] (snd (app (DELETE_products_del_id k) [] tbl)) =
     (Inr (Text (''Product Not found, please check the '' @ str k @ '' again'')),
      snd (app (DELETE_products_del_id k) [] tbl))"
proof -
  have gone: "k \<notin> set (map db_models_Product.id' (snd (app (DELETE_products_del_id k) [] tbl)))"
    by (auto simp: delete_eq)
  have again: "app (DELETE_products_del_id k) [] (snd (app (DELETE_products_del_id k) [] tbl)) =
     (Inr (Text (''Product Not found, please check the '' @ str k @ '' again'')),
      snd (app (DELETE_products_del_id k) [] tbl))"
    using gone by (simp only: delete_eq [of k "snd (app (DELETE_products_del_id k) [] tbl)"] if_False)
  have "sublist (str k) (''Product with id '' @ str k @ '' deleted successfully.'')"
    by (rule sublist_appendI)
  with delete_eq [of k tbl] gone again show ?thesis
    by blast
qed

text \<open>Row 4 deleted from the seeded table, looked up, and deleted again.\<close>

theorem delete_product_from_id_once_witness:
  "app (DELETE_products_del_id 4) [] sample_products =
     (Inr (Text ''Product with id 4 deleted successfully.''),
      filter (\<lambda>r. db_models_Product.id' r \<noteq> 4) sample_products) \<and>
   sublist ''4'' ''Product with id 4 deleted successfully.'' \<and>
   fst (app (GET_products_id 4) [] (snd (app (DELETE_products_del_id 4) [] sample_products))) =
     Inr (Text ''Product with id 4 not found, please verify the id, or try by name.'') \<and>
   app (DELETE_products_del_id 4) [] (snd (app (DELETE_products_del_id 4) [] sample_products)) =
     (Inr (Text ''Product Not found, please check the 4 again''),
      snd (app (DELETE_products_del_id 4) [] sample_products))"
  using delete_product_from_id_once [of 4 sample_products]
  by (simp add: get_healthy delete_healthy sample_products_def str_4)

end
